theory Spec2Isabelle
  imports Main
begin

section \<open>BlendNet REST client engine (\<^verbatim>\<open>BlendNet/Client.py\<close>, class \<^verbatim>\<open>ClientEngine\<close>)\<close>

text \<open>
  The engine talks to one Manager over HTTPS. Its mutable fields (\<^verbatim>\<open>self._ca\<close>,
  \<^verbatim>\<open>self._context\<close>), the destination files and everything the code does to the outside
  (bucket fetch, \<^verbatim>\<open>urlopen\<close>, \<^verbatim>\<open>print\<close>, \<^verbatim>\<open>time.sleep\<close>, file operations) are
  kept in one state record that every function takes and returns. Raised exceptions are
  values: a function returns \<open>Inl e\<close> where the Python raises \<open>e\<close>.
\<close>

subsection \<open>Python values and exceptions\<close>

type_synonym bytes = string

text \<open>What \<^verbatim>\<open>json.load\<close> and the engine's operations return (floats are left out).\<close>

datatype pyval =
    PyNone
  | PyBool bool
  | PyInt int
  | PyStr string
  | PyList "pyval list"
  | PyDict "(string \<times> pyval) list"
  | PyTuple "pyval list"

text \<open>Python truth value, as tested by \<^verbatim>\<open>not x\<close>.\<close>

fun truthy :: "pyval \<Rightarrow> bool" where
  "truthy PyNone = False"
| "truthy (PyBool b) = b"
| "truthy (PyInt i) = (i \<noteq> 0)"
| "truthy (PyStr s) = (s \<noteq> [])"
| "truthy (PyList xs) = (xs \<noteq> [])"
| "truthy (PyDict kvs) = (kvs \<noteq> [])"
| "truthy (PyTuple xs) = (xs \<noteq> [])"

text \<open>
  The \<^verbatim>\<open>reason\<close> of a \<^verbatim>\<open>URLError\<close>: an instance of \<^verbatim>\<open>BrokenPipeError\<close> (raised by the
  operating system, printed as below), or any other object, given by its \<^verbatim>\<open>str()\<close>.
\<close>

datatype reason = BrokenPipeError | Reason string

fun str_reason :: "reason \<Rightarrow> string" where
  "str_reason BrokenPipeError = ''[Errno 32] Broken pipe''"
| "str_reason (Reason t) = t"

text \<open>
  \<^verbatim>\<open>HTTPError\<close> (status code, reason, body) is caught before \<^verbatim>\<open>URLError\<close>; every
  other exception class is \<open>OtherExn\<close> with the class name.
\<close>

datatype exn =
    HTTPError nat string bytes
  | URLError reason
  | OtherExn string

text \<open>\<^verbatim>\<open>needle in haystack\<close> on strings.\<close>

fun contains :: "string \<Rightarrow> string \<Rightarrow> bool" where
  "contains needle [] = (needle = [])"
| "contains needle (c # cs) =
     (take (length needle) (c # cs) = needle \<or> contains needle cs)"

subsection \<open>Streams, requests, responses\<close>

text \<open>
  A readable stream (the response object): the bytes not yet delivered, and for each
  coming \<^verbatim>\<open>read\<close> an optional shortfall. \<^verbatim>\<open>read(n)\<close> with \<open>n \<ge> 0\<close> delivers at most
  \<open>n\<close> bytes; with a cap \<open>c\<close> it delivers at most \<open>c + 1\<close> of them (a blocking read
  gives at least one byte unless the stream is at its end or \<open>n = 0\<close>). At the end of the
  stream it returns \<^verbatim>\<open>b''\<close>. \<^verbatim>\<open>read(-1)\<close> delivers everything up to the end of the
  stream. Any other negative amount depends on the library version: the buffered reader
  underneath raises \<^verbatim>\<open>ValueError\<close> (Python 3.11 and before), or the response reads to
  the end as for \<open>-1\<close>; the stream says which in \<open>negative_reads_all\<close>.
\<close>

record stream =
  pending :: bytes
  caps :: "nat list"
  negative_reads_all :: bool

definition read :: "int \<Rightarrow> stream \<Rightarrow> exn + bytes \<times> stream" where
  "read amt res =
     (if 0 \<le> amt then
        (let m = (case caps res of [] \<Rightarrow> nat amt | c # _ \<Rightarrow> min (nat amt) (Suc c))
         in Inr (take m (pending res),
                 res\<lparr>pending := drop m (pending res), caps := tl (caps res)\<rparr>))
      else if amt = - 1 \<or> negative_reads_all res then
        Inr (pending res, res\<lparr>pending := [], caps := tl (caps res)\<rparr>)
      else Inl (OtherExn ''ValueError''))"

record sslcontext =
  check_hostname :: bool
  cadata :: "string list"

text \<open>
  \<^verbatim>\<open>urllib.request.Request\<close> with the two attributes \<^verbatim>\<open>download\<close> may attach.
  \<open>data\<close> is the body stream of a PUT; a stream object is true in Python, so
  \<^verbatim>\<open>req.data\<close> is true exactly when it is not \<^verbatim>\<open>None\<close>.
\<close>

record request =
  full_url :: string
  data :: "stream option"
  http_method :: string
  headers :: "(string \<times> string) list"
  out_func :: "(stream \<Rightarrow> int \<Rightarrow> string \<Rightarrow> exn + pyval) option"
  out_path :: "string option"

text \<open>A response: its headers (names in lower case, as the lookup ignores case) and body.\<close>

record response =
  hdrs :: "string \<rightharpoonup> string"
  body :: stream

subsection \<open>Configuration, environment, state\<close>

record cfg =
  address :: "string option"
  bucket :: string
  listen_port :: nat
  auth_user :: string
  auth_password :: string

text \<open>
  What the code calls but does not define, taken as parameters:
  \<^verbatim>\<open>providers.downloadDataFromBucket\<close>, the network behind \<^verbatim>\<open>urlopen\<close> (its answer to
  the \<open>k\<close>-th call may depend on the request and on the TLS context in use),
  \<^verbatim>\<open>json.load\<close> (\<open>None\<close>: the body is not JSON), \<^verbatim>\<open>hashlib.sha1(...).hexdigest()\<close>,
  \<^verbatim>\<open>b64encode\<close>, and whether \<^verbatim>\<open>open(path, 'wb')\<close> succeeds.
\<close>

record env =
  downloadDataFromBucket :: "string \<Rightarrow> string \<Rightarrow> bytes option"
  network :: "nat \<Rightarrow> request \<Rightarrow> sslcontext \<Rightarrow> exn + response"
  json_load :: "bytes \<Rightarrow> pyval option"
  sha1_hexdigest :: "bytes \<Rightarrow> string"
  b64encode :: "string \<Rightarrow> string"
  can_open :: "string \<Rightarrow> bool"

text \<open>An argument of a \<^verbatim>\<open>%\<close> format.\<close>

datatype arg = AStr string | AInt int | AVal pyval | AClass string

text \<open>Everything observable the engine does, in the order it does it.\<close>

datatype event =
    Fetch string string
  | LoadCA string
  | InitSSL
  | Urlopen string nat sslcontext
  | Print string "arg list"
  | Sleep nat
  | Open string
  | Write string bytes
  | Remove string

record state =
  ca :: "bytes option"
  ctx :: sslcontext
  files :: "string \<rightharpoonup> bytes"
  trace :: "event list"

definition log :: "event \<Rightarrow> state \<Rightarrow> state" where
  "log e s = s\<lparr>trace := trace s @ [e]\<rparr>"

fun is_urlopen :: "event \<Rightarrow> bool" where
  "is_urlopen (Urlopen u t c) = True"
| "is_urlopen e = False"

definition urlopens :: "state \<Rightarrow> nat" where
  "urlopens s = length (filter is_urlopen (trace s))"

definition sleeps :: "state \<Rightarrow> nat" where
  "sleeps s = length (filter (\<lambda>e. e = Sleep 1) (trace s))"

definition resets :: "state \<Rightarrow> nat" where
  "resets s = length (filter (\<lambda>e. e = InitSSL) (trace s))"

fun is_fetch :: "event \<Rightarrow> bool" where
  "is_fetch (Fetch b k) = True"
| "is_fetch e = False"

definition fetches :: "state \<Rightarrow> nat" where
  "fetches s = length (filter is_fetch (trace s))"

subsection \<open>Printing with a format\<close>

text \<open>
  \<^verbatim>\<open>print(template % args)\<close>. The \<^verbatim>\<open>%\<close> operator raises \<^verbatim>\<open>TypeError\<close> unless the
  template has as many conversions (\<^verbatim>\<open>%s\<close>, \<^verbatim>\<open>%d\<close>; \<^verbatim>\<open>%%\<close> is a literal) as there are
  arguments; a right operand that is not a tuple is one argument. The text printed is
  kept as template and arguments.
\<close>

fun conversions :: "string \<Rightarrow> nat" where
  "conversions (c # d # cs) =
     (if c = CHR ''%''
      then (if d = CHR ''%'' then conversions cs else Suc (conversions cs))
      else conversions (d # cs))"
| "conversions cs = 0"

definition print_format :: "string \<Rightarrow> arg list \<Rightarrow> state \<Rightarrow> exn option \<times> state" where
  "print_format template args s =
     (if conversions template = length args
      then (None, log (Print template args) s)
      else (Some (OtherExn ''TypeError''), s))"

definition print_plain :: "string \<Rightarrow> state \<Rightarrow> state" where
  "print_plain text s = log (Print text []) s"

subsection \<open>Trust: \<^verbatim>\<open>_initSSL\<close> and \<^verbatim>\<open>_getCA\<close>\<close>

definition initSSL :: "state \<Rightarrow> state" where
  "initSSL s =
     log InitSSL (s\<lparr>ctx := \<lparr>check_hostname = False, cadata = []\<rparr>, ca := None\<rparr>)"

definition bytes_truthy :: "bytes option \<Rightarrow> bool" where
  "bytes_truthy b = (case b of None \<Rightarrow> False | Some x \<Rightarrow> x \<noteq> [])"

text \<open>
  \<^verbatim>\<open>_getCA\<close>: a cached bundle is used as it is; otherwise the bundle is fetched from the
  bucket, kept in \<^verbatim>\<open>self._ca\<close> whatever it is, and loaded into the context when it is
  not empty. Decoding and loading the bundle are taken to succeed.
\<close>

definition getCA :: "env \<Rightarrow> cfg \<Rightarrow> state \<Rightarrow> bool \<times> state" where
  "getCA E c s =
     (if bytes_truthy (ca s) then (True, s)
      else
        let s1 = print_plain ''DEBUG: Trying to get CA certificate from the bucket'' s;
            fetched = downloadDataFromBucket E (bucket c) ''ca.crt'';
            s2 = log (Fetch (bucket c) ''ca.crt'') (s1\<lparr>ca := fetched\<rparr>)
        in case fetched of
             None \<Rightarrow> (False, s2)
           | Some pem \<Rightarrow>
               if pem = [] then (False, s2)
               else (True, log (LoadCA pem)
                             (s2\<lparr>ctx := (ctx s2)\<lparr>cadata := cadata (ctx s2) @ [pem]\<rparr>\<rparr>)))"

subsection \<open>\<^verbatim>\<open>_request\<close>\<close>

fun str_nat :: "nat \<Rightarrow> string" where
  "str_nat n =
     (if n < 10 then [''0123456789'' ! n]
      else str_nat (n div 10) @ [''0123456789'' ! (n mod 10)])"

definition str_truthy :: "string option \<Rightarrow> bool" where
  "str_truthy x = (case x of None \<Rightarrow> False | Some t \<Rightarrow> t \<noteq> [])"

definition request :: "env \<Rightarrow> cfg \<Rightarrow> string \<Rightarrow> stream option \<Rightarrow> string \<Rightarrow> state
    \<Rightarrow> request option \<times> state" where
  "request E c path dat meth s =
     (case getCA E c s of (ok, s1) \<Rightarrow>
        (case address c of
           None \<Rightarrow> (None, s1)
         | Some addr \<Rightarrow>
             if \<not> ok \<or> addr = [] then (None, s1)
             else
               let url = ''https://'' @ addr @ '':'' @ str_nat (listen_port c)
                           @ ''/api/v1/'' @ path;
                   creds = auth_user c @ '':'' @ auth_password c;
                   hs = (if creds \<noteq> '':''
                         then [(''Authorization'', ''Basic '' @ b64encode E creds)]
                         else [])
               in (Some \<lparr>full_url = url, data = dat, http_method = meth, headers = hs,
                         out_func = None, out_path = None\<rparr>, s1)))"

declare str_nat.simps [simp del]

subsection \<open>One attempt: \<^verbatim>\<open>urlopen\<close>, \<^verbatim>\<open>_requestExecuteRun\<close>\<close>

text \<open>
  \<^verbatim>\<open>urllib.request.urlopen(req, timeout=..., context=self._context)\<close>: the answer of
  the network to this call, counted from the calls made so far.
\<close>

definition urlopen :: "env \<Rightarrow> request \<Rightarrow> nat \<Rightarrow> state \<Rightarrow> (exn + response) \<times> state" where
  "urlopen E req timeout s =
     (network E (urlopens s) req (ctx s), log (Urlopen (full_url req) timeout (ctx s)) s)"

text \<open>\<^verbatim>\<open>d.get(key, default)\<close>; on a value that is not a dict, \<^verbatim>\<open>AttributeError\<close>.\<close>

fun dict_get :: "pyval \<Rightarrow> string \<Rightarrow> pyval \<Rightarrow> exn + pyval" where
  "dict_get (PyDict kvs) key dflt =
     (case map_of kvs key of None \<Rightarrow> Inr dflt | Some v \<Rightarrow> Inr v)"
| "dict_get v key dflt = Inl (OtherExn ''AttributeError'')"

text \<open>The format templates of the code's messages.\<close>

definition msg_execution_issue :: string where
  \<open>msg_execution_issue = ''ERROR: Execution issue from API for "%s": %s''\<close>

definition msg_http_issue :: string where
  \<open>msg_http_issue = ''WARN: Communication issue with request to "%s": HTTP %d %s: %s''\<close>

definition msg_url_issue :: string where
  \<open>msg_url_issue = ''WARN: Communication issue with request to "%s": %s''\<close>

definition msg_exception :: string where
  \<open>msg_exception = ''ERROR: Communication exception - check the remote service for errors "%s": %s''\<close>

definition msg_retry :: string where
  \<open>msg_retry = ''INFO: Retry request "%s" in 1 sec''\<close>

definition msg_wrong_ca :: string where
  "msg_wrong_ca = ''WARN: Seems like wrong (or old) CA is loaded, reinit SSL context and repeat.''"

definition msg_no_headers :: string where
  "msg_no_headers = ''ERROR: Unable to download stream without Content-Length and X-Checksum-Sha1 headers''"

definition requestExecuteRun :: "env \<Rightarrow> request \<Rightarrow> state \<Rightarrow> (exn + pyval) \<times> state" where
  "requestExecuteRun E req s =
     (case urlopen E req (if data req \<noteq> None then 3 else 10) s of
        (Inl e, s1) \<Rightarrow> (Inl e, s1)
      | (Inr res, s1) \<Rightarrow>
          (case json_load E (pending (body res)) of
             None \<Rightarrow> (Inl (OtherExn ''JSONDecodeError''), s1)
           | Some d \<Rightarrow>
               (case dict_get d ''success'' (PyBool False) of
                  Inl e \<Rightarrow> (Inl e, s1)
                | Inr ok \<Rightarrow>
                    if \<not> truthy ok then
                      (case dict_get d ''message'' PyNone of
                         Inl e \<Rightarrow> (Inl e, s1)
                       | Inr msg \<Rightarrow>
                           (case print_format msg_execution_issue [AVal msg] s1 of
                              (Some e, s2) \<Rightarrow> (Inl e, s2)
                            | (None, s2) \<Rightarrow> (Inr PyNone, s2)))
                    else (dict_get d ''data'' (PyBool True), s1))))"

subsection \<open>One attempt of a download: \<^verbatim>\<open>_requestDownloadRun\<close>\<close>

text \<open>
  \<^verbatim>\<open>int(length)\<close> on the header value, a string of characters below 256: blanks are
  stripped at both ends, an optional sign follows, then decimal digits, where single
  underscores may stand between digits. Any other string raises \<^verbatim>\<open>ValueError\<close> (\<open>None\<close>).
  The limit that recent versions put on the number of digits is left out.
\<close>

definition is_space :: "char \<Rightarrow> bool" where
  "is_space c = ((of_char c :: nat) \<in> set [9, 10, 11, 12, 13, 32, 133, 160])"

definition strip :: "string \<Rightarrow> string" where
  "strip t = rev (dropWhile is_space (rev (dropWhile is_space t)))"

fun digit_val :: "char \<Rightarrow> nat option" where
  "digit_val c =
     (let n = (of_char c :: nat)
      in if 48 \<le> n \<and> n \<le> 57 then Some (n - 48) else None)"

text \<open>The digits read so far as a number, and whether the last character was a digit.\<close>

fun int_digits :: "nat \<Rightarrow> bool \<Rightarrow> string \<Rightarrow> nat option" where
  "int_digits acc after_digit [] = (if after_digit then Some acc else None)"
| "int_digits acc after_digit (c # cs) =
     (if c = CHR ''_'' then
        (if after_digit \<and> cs \<noteq> [] then int_digits acc False cs else None)
      else
        (case digit_val c of
           None \<Rightarrow> None
         | Some d \<Rightarrow> int_digits (10 * acc + d) True cs))"

definition py_int :: "string \<Rightarrow> int option" where
  "py_int t =
     (case strip t of
        [] \<Rightarrow> None
      | c # cs \<Rightarrow>
          if c = CHR ''-'' then map_option (\<lambda>n. - int n) (int_digits 0 False cs)
          else if c = CHR ''+'' then map_option int (int_digits 0 False cs)
          else map_option int (int_digits 0 False (c # cs)))"

text \<open>File operations: \<^verbatim>\<open>open(path, 'wb')\<close>, \<^verbatim>\<open>f.write(chunk)\<close>, \<^verbatim>\<open>os.remove(path)\<close>.\<close>

definition os_open :: "string \<Rightarrow> state \<Rightarrow> state" where
  "os_open path s = log (Open path) (s\<lparr>files := (files s)(path \<mapsto> [])\<rparr>)"

definition f_write :: "string \<Rightarrow> bytes \<Rightarrow> state \<Rightarrow> state" where
  "f_write path chunk s =
     log (Write path chunk)
       (s\<lparr>files := (files s)(path \<mapsto>
            (case files s path of None \<Rightarrow> [] | Some old \<Rightarrow> old) @ chunk)\<rparr>)"

definition os_remove :: "string \<Rightarrow> state \<Rightarrow> exn option \<times> state" where
  "os_remove path s =
     (case files s path of
        None \<Rightarrow> (Some (OtherExn ''FileNotFoundError''), s)
      | Some old \<Rightarrow> (None, log (Remove path) (s\<lparr>files := (files s)(path := None)\<rparr>)))"

text \<open>
  The chunk loop
  \<^verbatim>\<open>for chunk in iter(lambda: res.read(min(1048576, size_left)), b''): ...\<close>
  with the digest state kept as the bytes fed to \<^verbatim>\<open>update\<close> so far. It returns the
  exception a \<^verbatim>\<open>read\<close> raised, if one did, the bytes fed to the digest, and the state
  after the writes.
\<close>

function download_loop ::
  "string \<Rightarrow> int \<Rightarrow> stream \<Rightarrow> bytes \<Rightarrow> state \<Rightarrow> exn option \<times> bytes \<times> state" where
  "download_loop path size_left res sha1_calc s =
     (case read (min 1048576 size_left) res of
        Inl e \<Rightarrow> (Some e, sha1_calc, s)
      | Inr (chunk, res') \<Rightarrow>
          if chunk = [] then (None, sha1_calc, s)
          else download_loop path (size_left - int (length chunk)) res'
                 (sha1_calc @ chunk) (f_write path chunk s))"
  by pat_completeness auto
termination
proof (relation "measure (\<lambda>(path, size_left, res, sha1_calc, s). length (pending res))")
qed (simp, auto simp: read_def Let_def split: if_splits)

declare download_loop.simps [simp del]

definition requestDownloadRun :: "env \<Rightarrow> request \<Rightarrow> state \<Rightarrow> (exn + pyval) \<times> state" where
  "requestDownloadRun E req s =
     (case urlopen E req 3 s of
        (Inl e, s1) \<Rightarrow> (Inl e, s1)
      | (Inr res, s1) \<Rightarrow>
          (case (hdrs res ''content-length'', hdrs res ''x-checksum-sha1'') of
             (Some len, Some sha1) \<Rightarrow>
               if len = [] \<or> sha1 = [] then
                 (Inr (PyBool False),
                  print_plain msg_no_headers s1)
               else
                 (case py_int len of
                    None \<Rightarrow> (Inl (OtherExn ''ValueError''), s1)
                  | Some sz \<Rightarrow>
                      (case out_func req of
                         Some f \<Rightarrow> (f (body res) sz sha1, s1)
                       | None \<Rightarrow>
                           (case out_path req of
                              None \<Rightarrow> (Inl (OtherExn ''AttributeError''), s1)
                            | Some path \<Rightarrow>
                                if \<not> can_open E path then
                                  (case os_remove path s1 of
                                     (Some e, s2) \<Rightarrow> (Inl e, s2)
                                   | (None, s2) \<Rightarrow> (Inl (OtherExn ''OSError''), s2))
                                else
                                  (case download_loop path sz (body res) [] (os_open path s1) of
                                     (Some e, sha1_calc, s2) \<Rightarrow>
                                       (case os_remove path s2 of
                                          (Some e', s3) \<Rightarrow> (Inl e', s3)
                                        | (None, s3) \<Rightarrow> (Inl e, s3))
                                   | (None, sha1_calc, s2) \<Rightarrow>
                                       if sha1 \<noteq> sha1_hexdigest E sha1_calc then
                                         (case os_remove path s2 of
                                            (Some e, s3) \<Rightarrow> (Inl e, s3)
                                          | (None, s3) \<Rightarrow>
                                              (Inl (URLError (Reason ''Incorrect sha1 signature'')), s3))
                                       else
                                         (Inr (PyTuple [PyStr (sha1_hexdigest E sha1_calc), PyStr path]),
                                          s2)))))
           | _ \<Rightarrow>
               (Inr (PyBool False),
                print_plain msg_no_headers s1)))"

subsection \<open>The retry loop: \<^verbatim>\<open>_requestExecute\<close>\<close>

text \<open>
  The \<^verbatim>\<open>except\<close> clauses, in the order of the source. \<open>Some r\<close>: the clause leaves
  \<^verbatim>\<open>_requestExecute\<close> with \<open>r\<close>; \<open>None\<close>: control falls through to the retry lines
  after the \<^verbatim>\<open>try\<close> statement.
\<close>

definition on_exception :: "request \<Rightarrow> exn \<Rightarrow> state \<Rightarrow> (exn + pyval) option \<times> state" where
  "on_exception req e s =
     (case e of
        HTTPError code why content \<Rightarrow>
          (case print_format msg_http_issue
                  [AStr (full_url req), AInt (int code), AStr why, AStr (take 1024 content)] s of
             (Some x, s1) \<Rightarrow> (Some (Inl x), s1)
           | (None, s1) \<Rightarrow> (None, s1))
      | URLError why \<Rightarrow>
          if contains ''CERTIFICATE_VERIFY_FAILED'' (str_reason why) then
            (None, initSSL (print_plain msg_wrong_ca s))
          else if why = BrokenPipeError \<and> data req \<noteq> None then
            (Some (Inr (PyBool True)), s)
          else
            (case print_format msg_url_issue [AStr (full_url req), AStr (str_reason why)] s of
               (Some x, s1) \<Rightarrow> (Some (Inl x), s1)
             | (None, s1) \<Rightarrow> (Some (Inr PyNone), s1))
      | OtherExn cls \<Rightarrow>
          (case print_format msg_exception [AStr (full_url req), AClass cls] s of
             (Some x, s1) \<Rightarrow> (Some (Inl x), s1)
           | (None, s1) \<Rightarrow> (Some (Inr PyNone), s1)))"

text \<open>
  \<^verbatim>\<open>for repeat in range(3): ...\<close> over the values of \<open>repeat\<close> still to come; falling
  off the end of the loop returns \<^verbatim>\<open>None\<close>.
\<close>

fun requestExecute_loop ::
  "request \<Rightarrow> (request \<Rightarrow> state \<Rightarrow> (exn + pyval) \<times> state) \<Rightarrow> nat list \<Rightarrow> state
     \<Rightarrow> (exn + pyval) \<times> state" where
  "requestExecute_loop req run_func [] s = (Inr PyNone, s)"
| "requestExecute_loop req run_func (repeat # rest) s =
     (case run_func req s of
        (Inr v, s1) \<Rightarrow> (Inr v, s1)
      | (Inl e, s1) \<Rightarrow>
          (case on_exception req e s1 of
             (Some r, s2) \<Rightarrow> (r, s2)
           | (None, s2) \<Rightarrow>
               (case print_format msg_retry [AStr (full_url req)] s2 of
                  (Some x, s3) \<Rightarrow> (Inl x, s3)
                | (None, s3) \<Rightarrow>
                    requestExecute_loop req run_func rest (log (Sleep 1) s3))))"

definition requestExecute ::
  "request \<Rightarrow> (request \<Rightarrow> state \<Rightarrow> (exn + pyval) \<times> state) \<Rightarrow> state
     \<Rightarrow> (exn + pyval) \<times> state" where
  "requestExecute req run_func s = requestExecute_loop req run_func [0, 1, 2] s"

subsection \<open>The operations: \<^verbatim>\<open>get\<close>, \<^verbatim>\<open>delete\<close>, \<^verbatim>\<open>put\<close>, \<^verbatim>\<open>download\<close>\<close>

definition add_header :: "string \<Rightarrow> string \<Rightarrow> request \<Rightarrow> request" where
  "add_header key val req = req\<lparr>headers := headers req @ [(key, val)]\<rparr>"

definition get :: "env \<Rightarrow> cfg \<Rightarrow> string \<Rightarrow> state \<Rightarrow> (exn + pyval) \<times> state" where
  "get E c path s =
     (case request E c path None ''GET'' s of
        (None, s1) \<Rightarrow> (Inr PyNone, s1)
      | (Some req, s1) \<Rightarrow> requestExecute req (requestExecuteRun E) s1)"

definition delete :: "env \<Rightarrow> cfg \<Rightarrow> string \<Rightarrow> state \<Rightarrow> (exn + pyval) \<times> state" where
  "delete E c path s =
     (case request E c path None ''DELETE'' s of
        (None, s1) \<Rightarrow> (Inr PyNone, s1)
      | (Some req, s1) \<Rightarrow> requestExecute req (requestExecuteRun E) s1)"

text \<open>
  \<^verbatim>\<open>put\<close> has no test of \<^verbatim>\<open>req\<close>: when \<^verbatim>\<open>_request\<close> returned \<^verbatim>\<open>None\<close>,
  \<^verbatim>\<open>req.add_header\<close> raises \<^verbatim>\<open>AttributeError\<close>, outside any \<^verbatim>\<open>try\<close>.
\<close>

definition put ::
  "env \<Rightarrow> cfg \<Rightarrow> string \<Rightarrow> stream \<Rightarrow> nat \<Rightarrow> string option \<Rightarrow> state
     \<Rightarrow> (exn + pyval) \<times> state" where
  "put E c path strm sz checksum s =
     (case request E c path (Some strm) ''PUT'' s of
        (None, s1) \<Rightarrow> (Inl (OtherExn ''AttributeError''), s1)
      | (Some req, s1) \<Rightarrow>
          let req1 = add_header ''Content-Length'' (str_nat sz) req;
              req2 = add_header ''Content-Type'' ''application/octet-stream'' req1;
              req3 = (if str_truthy checksum
                      then add_header ''X-Checksum-Sha1'' (case checksum of Some h \<Rightarrow> h | None \<Rightarrow> []) req2
                      else req2)
          in requestExecute req3 (requestExecuteRun E) s1)"

text \<open>The \<^verbatim>\<open>out\<close> argument of \<^verbatim>\<open>download\<close>: a callable, a \<^verbatim>\<open>str\<close>, or anything else.\<close>

datatype out =
    Callable "stream \<Rightarrow> int \<Rightarrow> string \<Rightarrow> exn + pyval"
  | Str string
  | OtherOut

definition download :: "env \<Rightarrow> cfg \<Rightarrow> string \<Rightarrow> out \<Rightarrow> state \<Rightarrow> (exn + pyval) \<times> state" where
  "download E c path out s =
     (case request E c path None ''GET'' s of
        (None, s1) \<Rightarrow> (Inr PyNone, s1)
      | (Some req, s1) \<Rightarrow>
          requestExecute
            (case out of
               Callable f \<Rightarrow> req\<lparr>out_func := Some f\<rparr>
             | Str p \<Rightarrow> req\<lparr>out_path := Some p\<rparr>
             | OtherOut \<Rightarrow> req)
            (requestDownloadRun E) s1)"

text \<open>The state of a new engine (\<^verbatim>\<open>__init__\<close> calls \<^verbatim>\<open>_initSSL\<close>) over given files.\<close>

definition init :: "(string \<rightharpoonup> bytes) \<Rightarrow> state" where
  "init fs = \<lparr>ca = None, ctx = \<lparr>check_hostname = False, cadata = []\<rparr>, files = fs, trace = []\<rparr>"

subsection \<open>Notions used to state the properties\<close>

text \<open>The failures after which \<^verbatim>\<open>_requestExecute\<close> goes on to the next attempt.\<close>

definition retried :: "exn \<Rightarrow> bool" where
  "retried e =
     (case e of
        HTTPError code why content \<Rightarrow> True
      | URLError why \<Rightarrow> contains ''CERTIFICATE_VERIFY_FAILED'' (str_reason why)
      | OtherExn cls \<Rightarrow> False)"

text \<open>The bytes written to a path, and the sizes of the chunks written, by a trace.\<close>

fun written :: "string \<Rightarrow> event list \<Rightarrow> bytes" where
  "written path [] = []"
| "written path (Write p chunk # es) =
     (if p = path then chunk @ written path es else written path es)"
| "written path (e # es) = written path es"

fun chunk_sizes :: "string \<Rightarrow> event list \<Rightarrow> nat list" where
  "chunk_sizes path [] = []"
| "chunk_sizes path (Write p chunk # es) =
     (if p = path then length chunk # chunk_sizes path es else chunk_sizes path es)"
| "chunk_sizes path (e # es) = chunk_sizes path es"

text \<open>
  Chunk sizes that respect the declared size: each is at most \<open>min (1 MiB) (what is
  left of n)\<close>.
\<close>

fun capped :: "nat \<Rightarrow> nat list \<Rightarrow> bool" where
  "capped n [] = True"
| "capped n (k # ks) = (k \<le> min 1048576 n \<and> capped (n - k) ks)"

text \<open>
  The bytes the chunk loop takes from a stream for a declared size \<open>n\<close> when no
  \<^verbatim>\<open>read\<close> raises.
\<close>

definition received :: "int \<Rightarrow> stream \<Rightarrow> bytes" where
  "received n res = (if 0 \<le> n then take (nat n) (pending res) else pending res)"

text \<open>The events a computation added to the trace of the state it started from.\<close>

definition added :: "state \<Rightarrow> state \<Rightarrow> event list" where
  "added s s' = drop (length (trace s)) (trace s')"

text \<open>
  The state in which the next attempt starts after an attempt that raised \<open>e\<close> and left
  the state \<open>s1\<close>: the \<^verbatim>\<open>except\<close> clause, the retry message, the sleep.
\<close>

definition retry_state :: "request \<Rightarrow> exn \<Rightarrow> state \<Rightarrow> state" where
  "retry_state req e s1 =
     log (Sleep 1) (log (Print msg_retry [AStr (full_url req)]) (snd (on_exception req e s1)))"

subsection \<open>Concrete engines, networks and requests\<close>

definition cfg0 :: cfg where
  "cfg0 = \<lparr>address = Some ''10.0.0.2'', bucket = ''blendnet-bucket'', listen_port = 8443,
            auth_user = [], auth_password = []\<rparr>"

text \<open>SHA-1 on the byte strings used below (the last value is that of the empty string).\<close>

definition sha1_table :: "bytes \<Rightarrow> string" where
  "sha1_table b =
     (if b = ''abc'' then ''a9993e364706816aba3e25717850c26c9cd0d89d''
      else if b = ''abd'' then ''cb4cc28df0fdbe0ecf9d9662e294b118092a5735''
      else if b = ''abcdef'' then ''1f8ac10f23c5b5bc1167bda84b833e5c057a77d2''
      else ''da39a3ee5e6b4b0d3255bfef95601890afd80709'')"

definition body_rejected :: bytes where
  \<open>body_rejected = ''{"success": false, "message": "no such task"}''\<close>

definition body_accepted :: bytes where
  \<open>body_accepted = ''{"success": true, "data": "done"}''\<close>

definition json_table :: "bytes \<Rightarrow> pyval option" where
  "json_table b =
     (if b = body_rejected
      then Some (PyDict [(''success'', PyBool False), (''message'', PyStr ''no such task'')])
      else if b = body_accepted
      then Some (PyDict [(''success'', PyBool True), (''data'', PyStr ''done'')])
      else None)"

text \<open>An environment over a bucket content and a network.\<close>

definition env0 :: "bytes option \<Rightarrow> (nat \<Rightarrow> request \<Rightarrow> sslcontext \<Rightarrow> exn + response) \<Rightarrow> env" where
  "env0 pem net =
     \<lparr>downloadDataFromBucket = (\<lambda>b k. if k = ''ca.crt'' then pem else None),
      network = net, json_load = json_table, sha1_hexdigest = sha1_table,
      b64encode = (\<lambda>t. t), can_open = (\<lambda>p. True)\<rparr>"

text \<open>A network that gives the same answer to every call.\<close>

definition always :: "exn + response \<Rightarrow> nat \<Rightarrow> request \<Rightarrow> sslcontext \<Rightarrow> exn + response" where
  "always answer k req c = answer"

text \<open>
  A Manager whose certificate is signed by the CA \<open>pem\<close>: the handshake fails with a
  certificate-verification failure unless that CA is loaded in the context.
\<close>

definition manager_with_ca :: "string \<Rightarrow> response \<Rightarrow> nat \<Rightarrow> request \<Rightarrow> sslcontext \<Rightarrow> exn + response" where
  "manager_with_ca pem answer k req c =
     (if pem \<in> set (cadata c) then Inr answer
      else Inl (URLError (Reason ''[SSL: CERTIFICATE_VERIFY_FAILED] certificate verify failed'')))"

definition json_response :: "bytes \<Rightarrow> response" where
  "json_response b =
     \<lparr>hdrs = Map.empty, body = \<lparr>pending = b, caps = [], negative_reads_all = False\<rparr>\<rparr>"

definition file_response :: "string \<Rightarrow> string \<Rightarrow> bytes \<Rightarrow> nat list \<Rightarrow> response" where
  "file_response len sha b cs =
     \<lparr>hdrs = [''content-length'' \<mapsto> len, ''x-checksum-sha1'' \<mapsto> sha],
      body = \<lparr>pending = b, caps = cs, negative_reads_all = False\<rparr>\<rparr>"

text \<open>The same response from a library whose \<^verbatim>\<open>read\<close> reads to the end on any negative amount.\<close>

definition reading_all :: "response \<Rightarrow> response" where
  "reading_all res = res\<lparr>body := (body res)\<lparr>negative_reads_all := True\<rparr>\<rparr>"

definition req_get0 :: request where
  "req_get0 = \<lparr>full_url = ''https://10.0.0.2:8443/api/v1/status'', data = None,
               http_method = ''GET'', headers = [], out_func = None, out_path = None\<rparr>"

definition req_put0 :: request where
  "req_put0 = \<lparr>full_url = ''https://10.0.0.2:8443/api/v1/task/t1/config'',
               data = Some \<lparr>pending = ''{}'', caps = [], negative_reads_all = False\<rparr>,
               http_method = ''PUT'',
               headers = [(''Content-Length'', ''2''),
                          (''Content-Type'', ''application/octet-stream'')],
               out_func = None, out_path = None\<rparr>"

definition req_file0 :: request where
  "req_file0 = \<lparr>full_url = ''https://10.0.0.2:8443/api/v1/task/t1/status/result/render'',
                data = None, http_method = ''GET'', headers = [], out_func = None,
                out_path = Some ''/tmp/render.exr''\<rparr>"

text \<open>An engine that has cached a CA which the Manager no longer uses.\<close>

definition stale :: state where
  "stale = \<lparr>ca = Some ''OLDPEM'', ctx = \<lparr>check_hostname = False, cadata = [''OLDPEM'']\<rparr>,
            files = Map.empty, trace = []\<rparr>"

section \<open>Properties\<close>

subsection \<open>Basic facts\<close>

lemma log_fields [simp]:
  "trace (log e s) = trace s @ [e]"
  "ca (log e s) = ca s"
  "ctx (log e s) = ctx s"
  "files (log e s) = files s"
  by (simp_all add: log_def)

lemma urlopens_log [simp]: "urlopens (log e s) = urlopens s + (if is_urlopen e then 1 else 0)"
  by (simp add: urlopens_def)

lemma sleeps_log [simp]: "sleeps (log e s) = sleeps s + (if e = Sleep 1 then 1 else 0)"
  by (simp add: sleeps_def)

lemma resets_log [simp]: "resets (log e s) = resets s + (if e = InitSSL then 1 else 0)"
  by (simp add: resets_def)

lemma fetches_log [simp]: "fetches (log e s) = fetches s + (if is_fetch e then 1 else 0)"
  by (simp add: fetches_def)

lemma conversions_templates [simp]:
  "conversions msg_execution_issue = 2"
  "conversions msg_http_issue = 4"
  "conversions msg_url_issue = 2"
  "conversions msg_exception = 2"
  "conversions msg_retry = 1"
  by (simp_all add: msg_execution_issue_def msg_http_issue_def msg_url_issue_def
      msg_exception_def msg_retry_def)

lemma print_format_ok:
  "conversions t = length args \<Longrightarrow> print_format t args s = (None, log (Print t args) s)"
  by (simp add: print_format_def)

lemma on_exception_retried: "retried e \<Longrightarrow> fst (on_exception req e s) = None"
  by (cases e) (simp_all add: retried_def on_exception_def print_format_ok)

lemma on_exception_counts:
  "urlopens (snd (on_exception req e s)) = urlopens s"
  "sleeps (snd (on_exception req e s)) = sleeps s"
  "fetches (snd (on_exception req e s)) = fetches s"
  by (cases e; simp add: on_exception_def print_format_ok initSSL_def print_plain_def
        urlopens_def sleeps_def fetches_def log_def)+

lemma loop_retry_step:
  assumes "run_func req s = (Inl e, s1)" and "retried e"
  shows "requestExecute_loop req run_func (repeat # rest) s =
         requestExecute_loop req run_func rest (retry_state req e s1)"
  using assms on_exception_retried [OF assms(2), of req s1]
  by (cases "on_exception req e s1") (simp add: print_format_ok retry_state_def)

lemma retry_state_counts:
  "urlopens (retry_state req e s) = urlopens s"
  "sleeps (retry_state req e s) = sleeps s + 1"
  "fetches (retry_state req e s) = fetches s"
  by (simp_all add: retry_state_def on_exception_counts)

subsection \<open>Facts about the chunk loop and the attempts\<close>

lemma read_nonneg:
  assumes "0 \<le> k"
  obtains m res' where "read k res = Inr (take m (pending res), res')" "m \<le> nat k"
    "pending res' = drop m (pending res)"
    "take m (pending res) = [] \<longrightarrow> k = 0 \<or> pending res = []"
proof (cases "caps res")
  case Nil
  with assms show ?thesis
    by (intro that [of "nat k"]) (auto simp: read_def Let_def)
next
  case (Cons c cs)
  with assms show ?thesis
    by (intro that [of "min (nat k) (Suc c)"]) (auto simp: read_def Let_def)
qed

lemma written_append [simp]: "written path (es @ fs) = written path es @ written path fs"
  by (induction path es rule: written.induct) simp_all

lemma chunk_sizes_append [simp]:
  "chunk_sizes path (es @ fs) = chunk_sizes path es @ chunk_sizes path fs"
  by (induction path es rule: chunk_sizes.induct) simp_all

lemma f_write_fields [simp]:
  "trace (f_write path chunk s) = trace s @ [Write path chunk]"
  "ca (f_write path chunk s) = ca s"
  "ctx (f_write path chunk s) = ctx s"
  "files (f_write path chunk s) path =
     Some ((case files s path of None \<Rightarrow> [] | Some old \<Rightarrow> old) @ chunk)"
  "q \<noteq> path \<Longrightarrow> files (f_write path chunk s) q = files s q"
  by (simp_all add: f_write_def)

lemma download_loop_props:
  assumes "0 \<le> n"
  shows "fst (download_loop path n res acc s) = None
   \<and> fst (snd (download_loop path n res acc s)) = acc @ take (nat n) (pending res)
   \<and> ca (snd (snd (download_loop path n res acc s))) = ca s
   \<and> ctx (snd (snd (download_loop path n res acc s))) = ctx s
   \<and> (\<forall>q. q \<noteq> path \<longrightarrow> files (snd (snd (download_loop path n res acc s))) q = files s q)
   \<and> (\<forall>old. files s path = Some old \<longrightarrow>
         files (snd (snd (download_loop path n res acc s))) path
           = Some (old @ take (nat n) (pending res)))
   \<and> (\<exists>es. trace (snd (snd (download_loop path n res acc s))) = trace s @ es
         \<and> written path es = take (nat n) (pending res)
         \<and> capped (nat n) (chunk_sizes path es)
         \<and> list_all (\<lambda>e. \<exists>c. e = Write path c) es)"
  using assms
proof (induction path n res acc s rule: download_loop.induct)
  case (1 path size_left res sha1_calc s)
  let ?k = "min 1048576 size_left"
  from "1.prems" have k: "0 \<le> ?k" by simp
  obtain m res' where rd: "read ?k res = Inr (take m (pending res), res')"
    and m: "m \<le> nat ?k" "pending res' = drop m (pending res)"
      "take m (pending res) = [] \<longrightarrow> ?k = 0 \<or> pending res = []"
    by (rule read_nonneg [OF k])
  define chunk where "chunk = take m (pending res)"
  show ?case
  proof (cases "chunk = []")
    case True
    with m(3) "1.prems" have "take (nat size_left) (pending res) = []"
      by (auto simp: chunk_def)
    with True rd show ?thesis
      by (simp add: download_loop.simps [of path size_left res] chunk_def)
  next
    case False
    have len: "length chunk \<le> 1048576" "length chunk \<le> nat size_left"
      using m(1) "1.prems" by (auto simp: chunk_def)
    then have nn: "0 \<le> size_left - int (length chunk)"
      and natd: "nat (size_left - int (length chunk)) = nat size_left - length chunk"
      using "1.prems" by auto
    note IH = "1.IH" [OF rd refl False [unfolded chunk_def] nn [unfolded chunk_def],
        folded chunk_def, unfolded natd]
    have tk: "chunk @ take (nat size_left - length chunk) (pending res')
        = take (nat size_left) (pending res)"
    proof (cases "m \<le> length (pending res)")
      case True
      then have "length chunk = m" by (simp add: chunk_def)
      then show ?thesis using m(1,2) len
        by (simp add: chunk_def) (metis add_diff_inverse_nat not_less take_add)
    next
      case False
      then show ?thesis using m(1,2) len by (simp add: chunk_def)
    qed
    have unf: "download_loop path size_left res sha1_calc s =
        download_loop path (size_left - int (length chunk)) res' (sha1_calc @ chunk)
          (f_write path chunk s)"
      using rd False by (simp add: download_loop.simps [of path size_left res] chunk_def)
    from IH obtain es where es:
      "trace (snd (snd (download_loop path (size_left - int (length chunk)) res'
           (sha1_calc @ chunk) (f_write path chunk s))))
         = trace (f_write path chunk s) @ es"
      "written path es = take (nat size_left - length chunk) (pending res')"
      "capped (nat size_left - length chunk) (chunk_sizes path es)"
      "list_all (\<lambda>e. \<exists>c. e = Write path c) es"
      by blast
    have tr: "\<exists>es'. trace (snd (snd (download_loop path size_left res sha1_calc s))) = trace s @ es'
         \<and> written path es' = take (nat size_left) (pending res)
         \<and> capped (nat size_left) (chunk_sizes path es')
         \<and> list_all (\<lambda>e. \<exists>c. e = Write path c) es'"
      using es len tk unf by (intro exI [of _ "Write path chunk # es"]) simp
    have a: "fst (download_loop path size_left res sha1_calc s) = None"
      "fst (snd (download_loop path size_left res sha1_calc s))
         = sha1_calc @ take (nat size_left) (pending res)"
      using IH tk unf by simp_all
    have b: "ca (snd (snd (download_loop path size_left res sha1_calc s))) = ca s"
      "ctx (snd (snd (download_loop path size_left res sha1_calc s))) = ctx s"
      using IH unf by simp_all
    have c: "\<forall>q. q \<noteq> path \<longrightarrow>
        files (snd (snd (download_loop path size_left res sha1_calc s))) q = files s q"
      using IH unf by simp
    have d: "\<forall>old. files s path = Some old \<longrightarrow>
         files (snd (snd (download_loop path size_left res sha1_calc s))) path
           = Some (old @ take (nat size_left) (pending res))"
      using IH tk unf by (simp add: append_assoc [symmetric] del: append_assoc) (metis append_assoc tk)
    from a b c d tr show ?thesis by blast
  qed
qed

lemma download_loop_negative_end:
  assumes "m < 0" and "pending r = []"
  shows "download_loop path m r a s =
     (if m = - 1 \<or> negative_reads_all r then (None, a, s)
      else (Some (OtherExn ''ValueError''), a, s))"
  using assms by (simp add: download_loop.simps [of path m r] read_def)

lemma download_loop_negative:
  assumes "n < 0"
  shows "download_loop path n res acc s =
     (if n = - 1 \<or> negative_reads_all res then
        (if pending res = [] then (None, acc, s)
         else (if negative_reads_all res then None else Some (OtherExn ''ValueError''),
               acc @ pending res, f_write path (pending res) s))
      else (Some (OtherExn ''ValueError''), acc, s))"
proof (cases "(n = - 1 \<or> negative_reads_all res) \<and> pending res \<noteq> []")
  case False
  with assms show ?thesis
    by (auto simp: download_loop.simps [of path n res] read_def)
next
  case True
  let ?r = "res\<lparr>pending := [], caps := tl (caps res)\<rparr>"
  from True assms have "download_loop path n res acc s =
      download_loop path (n - int (length (pending res))) ?r (acc @ pending res)
        (f_write path (pending res) s)"
    by (auto simp: download_loop.simps [of path n res] read_def)
  moreover have "0 < length (pending res)" using True by simp
  then have "n - int (length (pending res)) < - 1" using assms by linarith
  ultimately show ?thesis
    using True download_loop_negative_end [of "n - int (length (pending res))" ?r path
        "acc @ pending res" "f_write path (pending res) s"]
    by auto
qed

text \<open>What the chunk loop does, whatever the declared size.\<close>

lemma download_loop_general:
  "\<exists>es. trace (snd (snd (download_loop path n res acc s))) = trace s @ es
     \<and> list_all (\<lambda>e. \<exists>c. e = Write path c) es
     \<and> fst (snd (download_loop path n res acc s)) = acc @ written path es
     \<and> ca (snd (snd (download_loop path n res acc s))) = ca s
     \<and> ctx (snd (snd (download_loop path n res acc s))) = ctx s
     \<and> (\<forall>q. q \<noteq> path \<longrightarrow> files (snd (snd (download_loop path n res acc s))) q = files s q)
     \<and> (\<forall>old. files s path = Some old \<longrightarrow>
           files (snd (snd (download_loop path n res acc s))) path
             = Some (old @ written path es))
     \<and> (fst (download_loop path n res acc s) = None \<longrightarrow> written path es = received n res)
     \<and> (fst (download_loop path n res acc s) = None
          \<or> fst (download_loop path n res acc s) = Some (OtherExn ''ValueError''))
     \<and> (0 \<le> n \<longrightarrow> fst (download_loop path n res acc s) = None
                   \<and> capped (nat n) (chunk_sizes path es))"
proof (cases "0 \<le> n")
  case True
  from download_loop_props [OF True, of path res acc s] obtain es where
    "trace (snd (snd (download_loop path n res acc s))) = trace s @ es"
    "written path es = take (nat n) (pending res)"
    "capped (nat n) (chunk_sizes path es)"
    "list_all (\<lambda>e. \<exists>c. e = Write path c) es"
    by blast
  with download_loop_props [OF True, of path res acc s] True show ?thesis
    by (intro exI [of _ es]) (simp add: received_def)
next
  case False
  then have neg: "n < 0" by simp
  show ?thesis
  proof (cases "(n = - 1 \<or> negative_reads_all res) \<and> pending res \<noteq> []")
    case True
    with neg show ?thesis
      by (intro exI [of _ "[Write path (pending res)]"])
         (auto simp: download_loop_negative received_def)
  next
    case False
    with neg show ?thesis
      by (intro exI [of _ "[]"]) (auto simp: download_loop_negative received_def)
  qed
qed

lemma only_writes_counts:
  assumes "list_all (\<lambda>e. \<exists>c. e = Write path c) es"
  shows "filter is_urlopen es = []" "filter (\<lambda>e. e = Sleep 1) es = []"
    "filter is_fetch es = []" "filter (\<lambda>e. e = InitSSL) es = []"
  using assms by (induction es) auto

lemma download_loop_urlopens:
  "urlopens (snd (snd (download_loop path n res acc s))) = urlopens s"
proof -
  from download_loop_general [of path n res acc s] obtain es where
    "trace (snd (snd (download_loop path n res acc s))) = trace s @ es"
    "list_all (\<lambda>e. \<exists>c. e = Write path c) es"
    by blast
  then show ?thesis by (simp add: urlopens_def only_writes_counts)
qed

lemma os_remove_urlopens: "urlopens (snd (os_remove path s)) = urlopens s"
  by (simp add: os_remove_def urlopens_def log_def split: option.splits)

lemma os_open_urlopens: "urlopens (os_open path s) = urlopens s"
  by (simp add: os_open_def urlopens_def log_def)

lemma urlopen_urlopens: "urlopens (snd (urlopen E req t s)) = urlopens s + 1"
  by (simp add: urlopen_def)

lemma requestExecuteRun_urlopens:
  "urlopens (snd (requestExecuteRun E req s)) = urlopens s + 1"
  by (simp add: requestExecuteRun_def urlopen_def print_format_def
      split: sum.splits option.splits prod.splits)

lemma requestDownloadRun_urlopens:
  "urlopens (snd (requestDownloadRun E req s)) = urlopens s + 1"
proof -
  have dl: "\<And>path n res acc s0 a b c. download_loop path n res acc s0 = (a, b, c)
      \<Longrightarrow> urlopens c = urlopens s0"
    using download_loop_urlopens by (metis snd_conv)
  have rm: "\<And>path s0 a b. os_remove path s0 = (a, b) \<Longrightarrow> urlopens b = urlopens s0"
    using os_remove_urlopens by (metis snd_conv)
  show ?thesis
    by (auto simp: requestDownloadRun_def urlopen_def print_plain_def os_open_urlopens
        split: sum.splits option.splits prod.splits dest!: dl rm)
qed

lemma loop_urlopens_bound:
  assumes "\<And>r s0. urlopens (snd (run_func r s0)) = urlopens s0 + 1"
  shows "urlopens (snd (requestExecute_loop req run_func reps s)) \<le> urlopens s + length reps"
proof (induction reps arbitrary: s)
  case Nil
  then show ?case by simp
next
  case (Cons repeat rest)
  obtain r s1 where run: "run_func req s = (r, s1)" by (cases "run_func req s")
  with assms [of req s] have s1: "urlopens s1 = urlopens s + 1" by simp
  show ?case
  proof (cases r)
    case (Inr v)
    with run s1 show ?thesis by simp
  next
    case (Inl e)
    obtain h s2 where h: "on_exception req e s1 = (h, s2)" by (cases "on_exception req e s1")
    with on_exception_counts(1) [of req e s1] have s2: "urlopens s2 = urlopens s1" by simp
    show ?thesis
    proof (cases h)
      case (Some x)
      with run Inl h s1 s2 show ?thesis by simp
    next
      case None
      have "urlopens (snd (requestExecute_loop req run_func rest
               (log (Sleep 1) (log (Print msg_retry [AStr (full_url req)]) s2))))
            \<le> urlopens (log (Sleep 1) (log (Print msg_retry [AStr (full_url req)]) s2)) + length rest"
        by (rule Cons.IH)
      with run Inl h None s1 s2 show ?thesis by (simp add: print_format_ok)
    qed
  qed
qed

lemma getCA_urlopens: "urlopens (snd (getCA E c s)) = urlopens s"
  by (simp add: getCA_def Let_def print_plain_def urlopens_def log_def split: option.splits)

lemma request_urlopens: "urlopens (snd (request E c path dat meth s)) = urlopens s"
  by (cases "getCA E c s")
     (use getCA_urlopens [of E c s] in \<open>simp add: request_def Let_def split: option.splits\<close>)

lemma requestExecute_urlopens:
  "urlopens (snd (requestExecute req (requestExecuteRun E) s)) \<le> urlopens s + 3"
  "urlopens (snd (requestExecute req (requestDownloadRun E) s)) \<le> urlopens s + 3"
  using loop_urlopens_bound [of "requestExecuteRun E" req "[0, 1, 2]" s]
    loop_urlopens_bound [of "requestDownloadRun E" req "[0, 1, 2]" s]
  by (simp_all add: requestExecute_def requestExecuteRun_urlopens requestDownloadRun_urlopens)

lemma operations_urlopens:
  "urlopens (snd (get E c path s)) \<le> urlopens s + 3"
  "urlopens (snd (delete E c path s)) \<le> urlopens s + 3"
  "urlopens (snd (put E c path strm sz checksum s)) \<le> urlopens s + 3"
  "urlopens (snd (download E c path out s)) \<le> urlopens s + 3"
proof -
  show "urlopens (snd (get E c path s)) \<le> urlopens s + 3"
    using request_urlopens [of E c path None "''GET''" s]
    by (cases "request E c path None ''GET'' s")
       (auto simp: get_def split: option.splits intro: order_trans [OF requestExecute_urlopens(1)])
  show "urlopens (snd (delete E c path s)) \<le> urlopens s + 3"
    using request_urlopens [of E c path None "''DELETE''" s]
    by (cases "request E c path None ''DELETE'' s")
       (auto simp: delete_def split: option.splits intro: order_trans [OF requestExecute_urlopens(1)])
  show "urlopens (snd (put E c path strm sz checksum s)) \<le> urlopens s + 3"
    using request_urlopens [of E c path "Some strm" "''PUT''" s]
    by (cases "request E c path (Some strm) ''PUT'' s")
       (auto simp: put_def Let_def split: option.splits intro: order_trans [OF requestExecute_urlopens(1)])
  show "urlopens (snd (download E c path out s)) \<le> urlopens s + 3"
    using request_urlopens [of E c path None "''GET''" s]
    by (cases "request E c path None ''GET'' s")
       (auto simp: download_def split: option.splits intro: order_trans [OF requestExecute_urlopens(2)])
qed

lemma py_int_nonempty: "py_int len = Some n \<Longrightarrow> len \<noteq> []"
  by (auto simp: py_int_def strip_def)

text \<open>
  One attempt of a download to a file that can be opened, on a response with both
  headers: the chunk loop runs on the new file; the file is removed when a read raised
  or the digest differs.
\<close>

lemma requestDownloadRun_file:
  assumes net: "network E (urlopens s) req (ctx s) = Inr res"
    and len: "hdrs res ''content-length'' = Some len" "py_int len = Some n"
    and sha: "hdrs res ''x-checksum-sha1'' = Some sha1" "sha1 \<noteq> []"
    and out: "out_func req = None" "out_path req = Some path"
    and opn: "can_open E path"
  shows "requestDownloadRun E req s =
    (let r = download_loop path n (body res) []
               (os_open path (log (Urlopen (full_url req) 3 (ctx s)) s));
         s2 = snd (snd r);
         gone = log (Remove path) (s2\<lparr>files := (files s2)(path := None)\<rparr>)
     in case fst r of
          Some e \<Rightarrow> (Inl e, gone)
        | None \<Rightarrow>
            if sha1 \<noteq> sha1_hexdigest E (fst (snd r))
            then (Inl (URLError (Reason ''Incorrect sha1 signature'')), gone)
            else (Inr (PyTuple [PyStr (sha1_hexdigest E (fst (snd r))), PyStr path]), s2))"
proof -
  let ?s1 = "os_open path (log (Urlopen (full_url req) 3 (ctx s)) s)"
  let ?dl = "download_loop path n (body res) [] ?s1"
  have f0: "files ?s1 path = Some []"
    by (simp add: os_open_def)
  from download_loop_general [of path n "body res" "[]" ?s1] f0
  obtain c where fl: "files (snd (snd ?dl)) path = Some c" by blast
  obtain a b s2 where dl: "?dl = (a, b, s2)" by (cases ?dl)
  with fl have "files s2 path = Some c" by simp
  then show ?thesis
    using net len sha out opn py_int_nonempty [OF len(2)] dl
    by (simp add: requestDownloadRun_def urlopen_def os_remove_def Let_def split: option.splits)
qed

lemma added_append [simp]: "trace s' = trace s @ es \<Longrightarrow> added s s' = es"
  by (simp add: added_def)

lemma missing_headers:
  assumes "network E (urlopens s) req (ctx s) = Inr res"
    and "\<not> str_truthy (hdrs res ''content-length'')
         \<or> \<not> str_truthy (hdrs res ''x-checksum-sha1'')"
  shows "requestDownloadRun E req s =
           (Inr (PyBool False),
            log (Print msg_no_headers []) (log (Urlopen (full_url req) 3 (ctx s)) s))"
  using assms
  by (auto simp: requestDownloadRun_def urlopen_def str_truthy_def print_plain_def
      split: option.splits)

subsection \<open>The retry loop\<close>

text \<open>
  C5. If an attempt raises a \<^verbatim>\<open>URLError\<close> whose reason is a \<^verbatim>\<open>BrokenPipeError\<close> while
  the request carries a body (a PUT), \<^verbatim>\<open>_requestExecute\<close> returns \<^verbatim>\<open>True\<close> at once: the
  state it returns is the state the failed attempt left, so no further attempt is made
  and no sleep occurs. This holds at every attempt, whatever the attempts still to come.
\<close>

theorem broken_pipe_during_put_returns_true:
  assumes "run_func req s = (Inl (URLError BrokenPipeError), s1)" and "data req \<noteq> None"
  shows "requestExecute_loop req run_func (repeat # rest) s = (Inr (PyBool True), s1)
         \<and> urlopens (snd (requestExecute_loop req run_func (repeat # rest) s)) = urlopens s1
         \<and> sleeps (snd (requestExecute_loop req run_func (repeat # rest) s)) = sleeps s1"
  using assms by (simp add: on_exception_def)

theorem broken_pipe_during_put_returns_true_witness:
  "requestExecute_loop req_put0
     (requestExecuteRun (env0 (Some ''PEM'') (always (Inl (URLError BrokenPipeError)))))
     [0, 1, 2] (init Map.empty)
   = (Inr (PyBool True),
      log (Urlopen (full_url req_put0) 3 (ctx (init Map.empty))) (init Map.empty))"
  using broken_pipe_during_put_returns_true [of
      "requestExecuteRun (env0 (Some ''PEM'') (always (Inl (URLError BrokenPipeError))))"
      req_put0 "init Map.empty"
      "log (Urlopen (full_url req_put0) 3 (ctx (init Map.empty))) (init Map.empty)" 0 "[1, 2]"]
  by (simp add: requestExecuteRun_def urlopen_def env0_def always_def req_put0_def)

text \<open>
  C6. If the first attempt raises a \<^verbatim>\<open>URLError\<close> that is neither a
  certificate-verification failure nor a broken pipe on a request with a body,
  \<^verbatim>\<open>_requestExecute\<close> prints a warning and returns \<^verbatim>\<open>None\<close>: it makes no further attempt
  (no further \<^verbatim>\<open>urlopen\<close>) and does not sleep.
\<close>

theorem other_network_failure_aborts:
  assumes "run_func req s = (Inl (URLError why), s1)"
    and "\<not> contains ''CERTIFICATE_VERIFY_FAILED'' (str_reason why)"
    and "\<not> (why = BrokenPipeError \<and> data req \<noteq> None)"
  shows "requestExecute req run_func s =
           (Inr PyNone, log (Print msg_url_issue [AStr (full_url req), AStr (str_reason why)]) s1)
         \<and> urlopens (snd (requestExecute req run_func s)) = urlopens s1
         \<and> sleeps (snd (requestExecute req run_func s)) = sleeps s1"
  using assms by (simp add: requestExecute_def on_exception_def print_format_ok)

theorem other_network_failure_aborts_witness:
  "requestExecute req_get0
     (requestExecuteRun (env0 (Some ''PEM'') (always (Inl (URLError (Reason ''[Errno 111] Connection refused''))))))
     (init Map.empty)
   = (Inr PyNone,
      log (Print msg_url_issue [AStr (full_url req_get0), AStr ''[Errno 111] Connection refused''])
        (log (Urlopen (full_url req_get0) 10 (ctx (init Map.empty))) (init Map.empty)))
   \<and> urlopens (snd (requestExecute req_get0
     (requestExecuteRun (env0 (Some ''PEM'') (always (Inl (URLError (Reason ''[Errno 111] Connection refused''))))))
     (init Map.empty))) = 1
   \<and> sleeps (snd (requestExecute req_get0
     (requestExecuteRun (env0 (Some ''PEM'') (always (Inl (URLError (Reason ''[Errno 111] Connection refused''))))))
     (init Map.empty))) = 0"
  using other_network_failure_aborts [of
      "requestExecuteRun (env0 (Some ''PEM'') (always (Inl (URLError (Reason ''[Errno 111] Connection refused'')))))"
      req_get0 "init Map.empty" "Reason ''[Errno 111] Connection refused''"
      "log (Urlopen (full_url req_get0) 10 (ctx (init Map.empty))) (init Map.empty)"]
  by (simp add: requestExecuteRun_def urlopen_def env0_def always_def req_get0_def
        urlopens_def sleeps_def init_def)

text \<open>
  C2. Each invocation of a single-attempt function (\<^verbatim>\<open>_requestExecuteRun\<close>,
  \<^verbatim>\<open>_requestDownloadRun\<close>) makes exactly one \<^verbatim>\<open>urlopen\<close> call, and a call of
  \<^verbatim>\<open>_requestExecute\<close>, and so each of \<^verbatim>\<open>get\<close>, \<^verbatim>\<open>delete\<close>, \<^verbatim>\<open>put\<close> and
  \<^verbatim>\<open>download\<close>, adds at most three such calls: the single-attempt function is invoked
  at most 3 times. If three attempts in a row raise a failure that is retried
  (an HTTP error status or a certificate-verification failure), the call returns \<^verbatim>\<open>None\<close>.
\<close>

theorem at_most_three_attempts:
  "urlopens (snd (requestExecuteRun E req s)) = urlopens s + 1
   \<and> urlopens (snd (requestDownloadRun E req s)) = urlopens s + 1
   \<and> urlopens (snd (requestExecute req (requestExecuteRun E) s)) \<le> urlopens s + 3
   \<and> urlopens (snd (requestExecute req (requestDownloadRun E) s)) \<le> urlopens s + 3
   \<and> urlopens (snd (get E c path s)) \<le> urlopens s + 3
   \<and> urlopens (snd (delete E c path s)) \<le> urlopens s + 3
   \<and> urlopens (snd (put E c path strm sz checksum s)) \<le> urlopens s + 3
   \<and> urlopens (snd (download E c path out s)) \<le> urlopens s + 3
   \<and> (run_func req s = (Inl e0, s1) \<and> retried e0
        \<and> run_func req (retry_state req e0 s1) = (Inl e1, s2) \<and> retried e1
        \<and> run_func req (retry_state req e1 s2) = (Inl e2, s3) \<and> retried e2
      \<longrightarrow> requestExecute req run_func s = (Inr PyNone, retry_state req e2 s3))"
proof -
  have "requestExecute req run_func s = (Inr PyNone, retry_state req e2 s3)"
    if "run_func req s = (Inl e0, s1)" "retried e0"
      "run_func req (retry_state req e0 s1) = (Inl e1, s2)" "retried e1"
      "run_func req (retry_state req e1 s2) = (Inl e2, s3)" "retried e2"
    using that by (simp add: requestExecute_def loop_retry_step del: requestExecute_loop.simps(2))
  then show ?thesis
    by (simp add: requestExecuteRun_urlopens requestDownloadRun_urlopens
        requestExecute_urlopens operations_urlopens)
qed

theorem at_most_three_attempts_witness:
  "fst (requestExecute req_get0
          (requestExecuteRun (env0 (Some ''PEM'')
             (always (Inl (HTTPError 500 ''Internal Server Error'' ''busy'')))))
          (init Map.empty)) = Inr PyNone
   \<and> urlopens (snd (requestExecute req_get0
          (requestExecuteRun (env0 (Some ''PEM'')
             (always (Inl (HTTPError 500 ''Internal Server Error'' ''busy'')))))
          (init Map.empty))) = 3
   \<and> sleeps (snd (requestExecute req_get0
          (requestExecuteRun (env0 (Some ''PEM'')
             (always (Inl (HTTPError 500 ''Internal Server Error'' ''busy'')))))
          (init Map.empty))) = 3"
proof -
  let ?e = "HTTPError 500 ''Internal Server Error'' ''busy''"
  let ?E = "env0 (Some ''PEM'') (always (Inl ?e))"
  let ?run = "requestExecuteRun ?E"
  let ?s0 = "init Map.empty"
  let ?s1 = "snd (?run req_get0 ?s0)"
  let ?s2 = "snd (?run req_get0 (retry_state req_get0 ?e ?s1))"
  let ?s3 = "snd (?run req_get0 (retry_state req_get0 ?e ?s2))"
  have run: "?run req_get0 s = (Inl ?e, log (Urlopen (full_url req_get0) 10 (ctx s)) s)" for s
    by (simp add: requestExecuteRun_def urlopen_def env0_def always_def req_get0_def)
  have r: "retried ?e" by (simp add: retried_def)
  from at_most_three_attempts [where E = ?E and req = req_get0 and s = ?s0 and run_func = ?run
      and ?e0.0 = ?e and ?s1.0 = ?s1 and ?e1.0 = ?e and ?s2.0 = ?s2 and ?e2.0 = ?e and ?s3.0 = ?s3]
  have "requestExecute req_get0 ?run ?s0 = (Inr PyNone, retry_state req_get0 ?e ?s3)"
    using run r by simp
  then show ?thesis
    by (simp add: run retry_state_counts) (simp add: urlopens_def sleeps_def init_def)
qed

subsection \<open>Downloads to a file\<close>

text \<open>
  C1. A download to a file whose response carries both headers, where the SHA-1 of the
  bytes received (the first \<open>n\<close> bytes of the body for a declared length \<open>n \<ge> 0\<close>, the
  whole body for a negative one) differs from the declared checksum: the attempt raises,
  and the last thing it does before the exception leaves it is to remove the destination
  file. \<^verbatim>\<open>_requestExecute\<close> then returns \<^verbatim>\<open>None\<close>, never a success value, and the
  destination file does not exist afterwards. This holds at every attempt. For a declared
  length that is not negative the exception is \<^verbatim>\<open>URLError('Incorrect sha1 signature')\<close>
  and \<^verbatim>\<open>_requestExecute\<close> prints its warning; for a negative one it may instead be the
  \<^verbatim>\<open>ValueError\<close> of a \<^verbatim>\<open>read\<close>.
\<close>

theorem checksum_mismatch_removes_file:
  assumes net: "network E (urlopens s) req (ctx s) = Inr res"
    and len: "hdrs res ''content-length'' = Some len" "py_int len = Some n"
    and sha: "hdrs res ''x-checksum-sha1'' = Some sha1" "sha1 \<noteq> []"
    and out: "out_func req = None" "out_path req = Some path"
    and opn: "can_open E path"
    and bad: "sha1_hexdigest E (received n (body res)) \<noteq> sha1"
  shows "(fst (requestDownloadRun E req s) = Inl (URLError (Reason ''Incorrect sha1 signature''))
          \<or> fst (requestDownloadRun E req s) = Inl (OtherExn ''ValueError''))
    \<and> files (snd (requestDownloadRun E req s)) path = None
    \<and> last (trace (snd (requestDownloadRun E req s))) = Remove path
    \<and> fst (requestExecute_loop req (requestDownloadRun E) (repeat # rest) s) = Inr PyNone
    \<and> files (snd (requestExecute_loop req (requestDownloadRun E) (repeat # rest) s)) path = None
    \<and> (0 \<le> n \<longrightarrow>
         fst (requestDownloadRun E req s) = Inl (URLError (Reason ''Incorrect sha1 signature''))
         \<and> requestExecute_loop req (requestDownloadRun E) (repeat # rest) s =
             (Inr PyNone,
              log (Print msg_url_issue [AStr (full_url req), AStr ''Incorrect sha1 signature''])
                (snd (requestDownloadRun E req s))))"
proof -
  let ?rd = "requestDownloadRun E req s"
  let ?r = "download_loop path n (body res) []
              (os_open path (log (Urlopen (full_url req) 3 (ctx s)) s))"
  let ?gone = "log (Remove path) ((snd (snd ?r))\<lparr>files := (files (snd (snd ?r)))(path := None)\<rparr>)"
  note rd = requestDownloadRun_file [OF net len sha out opn]
  from download_loop_general [of path n "body res" "[]"
      "os_open path (log (Urlopen (full_url req) 3 (ctx s)) s)"]
  have got: "fst ?r = None \<longrightarrow> fst (snd ?r) = received n (body res)"
    and err: "fst ?r = None \<or> fst ?r = Some (OtherExn ''ValueError'')"
    and nonneg: "0 \<le> n \<longrightarrow> fst ?r = None"
    by auto
  have st: "snd ?rd = ?gone"
    using rd got bad by (cases "fst ?r") (auto simp: Let_def)
  have url: "fst ?rd = Inl (URLError (Reason ''Incorrect sha1 signature''))" if "fst ?r = None"
    using rd got bad that by (auto simp: Let_def)
  have val: "fst ?rd = Inl (OtherExn ''ValueError'')" if "fst ?r \<noteq> None"
    using rd err that by (auto simp: Let_def)
  have a: "fst ?rd = Inl (URLError (Reason ''Incorrect sha1 signature''))
          \<or> fst ?rd = Inl (OtherExn ''ValueError'')"
    using url val by blast
  have b: "files (snd ?rd) path = None" "last (trace (snd ?rd)) = Remove path"
    using st by simp_all
  have loop_url: "requestExecute_loop req (requestDownloadRun E) (repeat # rest) s =
        (Inr PyNone,
         log (Print msg_url_issue [AStr (full_url req), AStr ''Incorrect sha1 signature''])
           (snd ?rd))"
    if "fst ?rd = Inl (URLError (Reason ''Incorrect sha1 signature''))"
    using that by (cases ?rd) (simp add: on_exception_def print_format_ok)
  have loop_val: "requestExecute_loop req (requestDownloadRun E) (repeat # rest) s =
        (Inr PyNone,
         log (Print msg_exception [AStr (full_url req), AClass ''ValueError'']) (snd ?rd))"
    if "fst ?rd = Inl (OtherExn ''ValueError'')"
    using that by (cases ?rd) (simp add: on_exception_def print_format_ok)
  have c: "fst (requestExecute_loop req (requestDownloadRun E) (repeat # rest) s) = Inr PyNone"
    "files (snd (requestExecute_loop req (requestDownloadRun E) (repeat # rest) s)) path = None"
    using a loop_url loop_val b(1) by auto
  have d: "0 \<le> n \<longrightarrow>
         fst ?rd = Inl (URLError (Reason ''Incorrect sha1 signature''))
         \<and> requestExecute_loop req (requestDownloadRun E) (repeat # rest) s =
             (Inr PyNone,
              log (Print msg_url_issue [AStr (full_url req), AStr ''Incorrect sha1 signature''])
                (snd ?rd))"
    using nonneg url loop_url by blast
  from a b c d show ?thesis by blast
qed

theorem checksum_mismatch_removes_file_witness:
  "fst (requestExecute_loop req_file0
         (requestDownloadRun (env0 (Some ''PEM'')
            (always (Inr (file_response ''3'' ''a9993e364706816aba3e25717850c26c9cd0d89d'' ''abd'' [])))))
         [0, 1, 2] (init [''/tmp/render.exr'' \<mapsto> ''old''])) = Inr PyNone
   \<and> files (snd (requestExecute_loop req_file0
         (requestDownloadRun (env0 (Some ''PEM'')
            (always (Inr (file_response ''3'' ''a9993e364706816aba3e25717850c26c9cd0d89d'' ''abd'' [])))))
         [0, 1, 2] (init [''/tmp/render.exr'' \<mapsto> ''old'']))) ''/tmp/render.exr'' = None"
  using checksum_mismatch_removes_file [of
      "env0 (Some ''PEM'')
         (always (Inr (file_response ''3'' ''a9993e364706816aba3e25717850c26c9cd0d89d'' ''abd'' [])))"
      "init [''/tmp/render.exr'' \<mapsto> ''old'']" req_file0
      "file_response ''3'' ''a9993e364706816aba3e25717850c26c9cd0d89d'' ''abd'' []"
      "''3''" 3 "''a9993e364706816aba3e25717850c26c9cd0d89d''" "''/tmp/render.exr''" 0 "[1, 2]"]
  by (simp add: env0_def always_def file_response_def req_file0_def py_int_def strip_def
      is_space_def sha1_table_def received_def)

text \<open>
  C8, as stated: the transfer returns the digest \<open>H\<close>. The code returns the pair
  \<^verbatim>\<open>(H, path)\<close>, which is not the string \<open>H\<close>.
\<close>

theorem download_returns_pair_not_digest:
  "fst (requestDownloadRun (env0 (Some ''PEM'')
          (always (Inr (file_response ''3'' ''a9993e364706816aba3e25717850c26c9cd0d89d'' ''abc'' []))))
        req_file0 (init Map.empty))
     = Inr (PyTuple [PyStr ''a9993e364706816aba3e25717850c26c9cd0d89d'', PyStr ''/tmp/render.exr''])
   \<and> fst (requestDownloadRun (env0 (Some ''PEM'')
          (always (Inr (file_response ''3'' ''a9993e364706816aba3e25717850c26c9cd0d89d'' ''abc'' []))))
        req_file0 (init Map.empty))
     \<noteq> Inr (PyStr ''a9993e364706816aba3e25717850c26c9cd0d89d'')"
proof -
  let ?res = "file_response ''3'' ''a9993e364706816aba3e25717850c26c9cd0d89d'' ''abc'' []"
  let ?E = "env0 (Some ''PEM'') (always (Inr ?res))"
  let ?s1 = "os_open ''/tmp/render.exr''
               (log (Urlopen (full_url req_file0) 3 (ctx (init Map.empty))) (init Map.empty))"
  have "fst (download_loop ''/tmp/render.exr'' 3 (body ?res) [] ?s1) = None
      \<and> fst (snd (download_loop ''/tmp/render.exr'' 3 (body ?res) [] ?s1)) = ''abc''"
    using download_loop_props [of 3 "''/tmp/render.exr''" "body ?res" "[]" ?s1]
    by (simp add: file_response_def)
  then show ?thesis
    using requestDownloadRun_file [of ?E "init Map.empty" req_file0 ?res "''3''" 3
        "''a9993e364706816aba3e25717850c26c9cd0d89d''" "''/tmp/render.exr''"]
    by (simp add: env0_def always_def file_response_def req_file0_def py_int_def strip_def
        is_space_def sha1_table_def Let_def)
qed

text \<open>
  C8, amended. For a response whose body is \<open>N\<close> bytes with SHA-1 hex digest \<open>H\<close>,
  carrying \<^verbatim>\<open>Content-Length\<close> \<open>N\<close> and \<^verbatim>\<open>X-Checksum-Sha1\<close> \<open>H\<close>, the transfer to a file
  writes exactly the \<open>N\<close> bytes of the body to the destination, which then holds the
  body, and returns the pair of \<open>H\<close> and the destination path; \<^verbatim>\<open>_requestExecute\<close>
  returns that pair.
\<close>

theorem download_writes_body_returns_digest_and_path:
  assumes net: "network E (urlopens s) req (ctx s) = Inr res"
    and len: "hdrs res ''content-length'' = Some len"
      "py_int len = Some (int (length (pending (body res))))"
    and sha: "hdrs res ''x-checksum-sha1'' = Some (sha1_hexdigest E (pending (body res)))"
      "sha1_hexdigest E (pending (body res)) \<noteq> []"
    and out: "out_func req = None" "out_path req = Some path"
    and opn: "can_open E path"
  shows "fst (requestDownloadRun E req s) =
           Inr (PyTuple [PyStr (sha1_hexdigest E (pending (body res))), PyStr path])
    \<and> written path (added s (snd (requestDownloadRun E req s))) = pending (body res)
    \<and> files (snd (requestDownloadRun E req s)) path = Some (pending (body res))
    \<and> requestExecute_loop req (requestDownloadRun E) (repeat # rest) s =
        requestDownloadRun E req s"
proof -
  let ?rd = "requestDownloadRun E req s"
  let ?n = "int (length (pending (body res)))"
  let ?s1 = "os_open path (log (Urlopen (full_url req) 3 (ctx s)) s)"
  let ?dl = "download_loop path ?n (body res) [] ?s1"
  have f0: "files ?s1 path = Some []" by (simp add: os_open_def)
  from download_loop_general [of path ?n "body res" "[]" ?s1] f0
  obtain es where es: "trace (snd (snd ?dl)) = trace ?s1 @ es"
    "fst (snd ?dl) = written path es" "fst ?dl = None"
    "written path es = received ?n (body res)"
    "files (snd (snd ?dl)) path = Some (written path es)"
    by auto
  have rcv: "received ?n (body res) = pending (body res)"
    by (simp add: received_def)
  have eq: "?rd = (Inr (PyTuple [PyStr (sha1_hexdigest E (pending (body res))), PyStr path]),
                   snd (snd ?dl))"
    using es rcv by (simp add: requestDownloadRun_file [OF net len sha out opn] Let_def)
  have w: "written path (added s (snd ?rd)) = pending (body res)"
  proof -
    have "trace (snd ?rd) = trace s @ (Urlopen (full_url req) 3 (ctx s) # Open path # es)"
      using eq es(1) by (simp add: os_open_def)
    then have "added s (snd ?rd) = Urlopen (full_url req) 3 (ctx s) # Open path # es"
      by (rule added_append)
    with es(4) rcv show ?thesis by simp
  qed
  have f: "files (snd ?rd) path = Some (pending (body res))"
    using eq es(4,5) rcv by simp
  have "requestExecute_loop req (requestDownloadRun E) (repeat # rest) s = ?rd"
    using eq by simp
  with eq w f show ?thesis by simp
qed

theorem download_writes_body_returns_digest_and_path_witness:
  "fst (requestDownloadRun (env0 (Some ''PEM'')
          (always (Inr (file_response ''3'' ''a9993e364706816aba3e25717850c26c9cd0d89d'' ''abc'' [0]))))
        req_file0 (init Map.empty))
     = Inr (PyTuple [PyStr ''a9993e364706816aba3e25717850c26c9cd0d89d'', PyStr ''/tmp/render.exr''])
   \<and> files (snd (requestDownloadRun (env0 (Some ''PEM'')
          (always (Inr (file_response ''3'' ''a9993e364706816aba3e25717850c26c9cd0d89d'' ''abc'' [0]))))
        req_file0 (init Map.empty))) ''/tmp/render.exr'' = Some ''abc''"
  using download_writes_body_returns_digest_and_path [of
      "env0 (Some ''PEM'')
         (always (Inr (file_response ''3'' ''a9993e364706816aba3e25717850c26c9cd0d89d'' ''abc'' [0])))"
      "init Map.empty" req_file0
      "file_response ''3'' ''a9993e364706816aba3e25717850c26c9cd0d89d'' ''abc'' [0]"
      "''3''" "''/tmp/render.exr''" 0 "[1, 2]"]
  by (simp add: env0_def always_def file_response_def req_file0_def py_int_def strip_def
      is_space_def sha1_table_def)

text \<open>
  C9, as stated: a response without the headers is classified as an unclassified failure.
  In the code the attempt raises nothing: it returns \<^verbatim>\<open>False\<close>, and the call returns
  \<^verbatim>\<open>False\<close>, not \<^verbatim>\<open>None\<close> as it does after an exception of an unclassified kind.
\<close>

theorem missing_download_headers_not_an_exception:
  "fst (requestDownloadRun (env0 (Some ''PEM'') (always (Inr (json_response body_accepted))))
          req_file0 (init Map.empty)) = Inr (PyBool False)
   \<and> fst (download (env0 (Some ''PEM'') (always (Inr (json_response body_accepted)))) cfg0
          ''task/t1/status/result/render'' (Str ''/tmp/render.exr'') (init Map.empty))
       = Inr (PyBool False)
   \<and> fst (download (env0 (Some ''PEM'') (always (Inr (json_response body_accepted)))) cfg0
          ''task/t1/status/result/render'' (Str ''/tmp/render.exr'') (init Map.empty))
       \<noteq> Inr PyNone"
  by (simp add: download_def request_def getCA_def bytes_truthy_def init_def cfg0_def
      env0_def always_def json_response_def requestExecute_def requestDownloadRun_def
      urlopen_def print_plain_def Let_def)

text \<open>
  C9, amended. For a download response that lacks \<^verbatim>\<open>Content-Length\<close> or
  \<^verbatim>\<open>X-Checksum-Sha1\<close> (or carries an empty one), the attempt prints an error and returns
  \<^verbatim>\<open>False\<close> as an ordinary value, without raising; \<^verbatim>\<open>_requestExecute\<close> returns that
  \<^verbatim>\<open>False\<close> at once: the attempt is not retried, nothing is slept, nothing is written,
  and no success value is returned.
\<close>

theorem missing_download_headers_return_false:
  assumes net: "network E (urlopens s) req (ctx s) = Inr res"
    and miss: "\<not> str_truthy (hdrs res ''content-length'')
               \<or> \<not> str_truthy (hdrs res ''x-checksum-sha1'')"
  shows "requestDownloadRun E req s =
           (Inr (PyBool False),
            log (Print msg_no_headers []) (log (Urlopen (full_url req) 3 (ctx s)) s))
    \<and> requestExecute_loop req (requestDownloadRun E) (repeat # rest) s =
           (Inr (PyBool False),
            log (Print msg_no_headers []) (log (Urlopen (full_url req) 3 (ctx s)) s))"
proof -
  have "requestDownloadRun E req s =
           (Inr (PyBool False),
            log (Print msg_no_headers []) (log (Urlopen (full_url req) 3 (ctx s)) s))"
    using net miss by (rule missing_headers)
  then show ?thesis by simp
qed

theorem missing_download_headers_return_false_witness:
  "requestExecute_loop req_file0
     (requestDownloadRun (env0 (Some ''PEM'') (always (Inr (json_response body_accepted)))))
     [0, 1, 2] (init Map.empty)
   = (Inr (PyBool False),
      log (Print msg_no_headers [])
        (log (Urlopen (full_url req_file0) 3 (ctx (init Map.empty))) (init Map.empty)))"
  using missing_download_headers_return_false [of
      "env0 (Some ''PEM'') (always (Inr (json_response body_accepted)))"
      "init Map.empty" req_file0 "json_response body_accepted" 0 "[1, 2]"]
  by (simp add: env0_def always_def json_response_def str_truthy_def)

text \<open>
  C10, as stated: with a declared \<^verbatim>\<open>Content-Length\<close> \<open>N\<close> the transfer never writes more
  than \<open>N\<close> bytes. \<^verbatim>\<open>int\<close> accepts \<^verbatim>\<open>-1\<close>, and then \<^verbatim>\<open>read(min(1048576, -1))\<close> is
  \<^verbatim>\<open>read(-1)\<close>, which delivers the whole body: a body of 6 bytes is written in one chunk
  of 6 bytes, with either behaviour of the library on the read that follows (where that
  read returns \<^verbatim>\<open>b''\<close>, the 6 bytes stay in the destination file).
\<close>

theorem negative_length_writes_whole_body:
  "py_int ''-1'' = Some (- 1)
   \<and> written ''/tmp/render.exr'' (added (init Map.empty)
        (snd (requestDownloadRun (env0 (Some ''PEM'')
                (always (Inr (file_response ''-1'' ''1f8ac10f23c5b5bc1167bda84b833e5c057a77d2'' ''abcdef'' []))))
              req_file0 (init Map.empty)))) = ''abcdef''
   \<and> chunk_sizes ''/tmp/render.exr'' (added (init Map.empty)
        (snd (requestDownloadRun (env0 (Some ''PEM'')
                (always (Inr (file_response ''-1'' ''1f8ac10f23c5b5bc1167bda84b833e5c057a77d2'' ''abcdef'' []))))
              req_file0 (init Map.empty)))) = [6]
   \<and> written ''/tmp/render.exr'' (added (init Map.empty)
        (snd (requestDownloadRun (env0 (Some ''PEM'')
                (always (Inr (reading_all
                   (file_response ''-1'' ''1f8ac10f23c5b5bc1167bda84b833e5c057a77d2'' ''abcdef'' [])))))
              req_file0 (init Map.empty)))) = ''abcdef''
   \<and> files (snd (requestDownloadRun (env0 (Some ''PEM'')
                (always (Inr (reading_all
                   (file_response ''-1'' ''1f8ac10f23c5b5bc1167bda84b833e5c057a77d2'' ''abcdef'' [])))))
              req_file0 (init Map.empty))) ''/tmp/render.exr'' = Some ''abcdef''"
proof -
  let ?res = "file_response ''-1'' ''1f8ac10f23c5b5bc1167bda84b833e5c057a77d2'' ''abcdef'' []"
  let ?s0 = "init Map.empty"
  have n: "py_int ''-1'' = Some (- 1)"
    by (simp add: py_int_def strip_def is_space_def)
  have strict: "requestDownloadRun (env0 (Some ''PEM'') (always (Inr ?res))) req_file0 ?s0 =
      (Inl (OtherExn ''ValueError''),
       ?s0\<lparr>trace := [Urlopen (full_url req_file0) 3 (ctx ?s0), Open ''/tmp/render.exr'',
                       Write ''/tmp/render.exr'' ''abcdef'', Remove ''/tmp/render.exr'']\<rparr>)"
    using requestDownloadRun_file [of "env0 (Some ''PEM'') (always (Inr ?res))" ?s0 req_file0 ?res
        "''-1''" "- 1" "''1f8ac10f23c5b5bc1167bda84b833e5c057a77d2''" "''/tmp/render.exr''"] n
    by (simp add: env0_def always_def file_response_def req_file0_def download_loop_negative
        Let_def os_open_def f_write_def log_def init_def urlopens_def)
  have all: "requestDownloadRun (env0 (Some ''PEM'') (always (Inr (reading_all ?res)))) req_file0 ?s0 =
      (Inr (PyTuple [PyStr ''1f8ac10f23c5b5bc1167bda84b833e5c057a77d2'', PyStr ''/tmp/render.exr'']),
       ?s0\<lparr>files := [''/tmp/render.exr'' \<mapsto> ''abcdef''],
            trace := [Urlopen (full_url req_file0) 3 (ctx ?s0), Open ''/tmp/render.exr'',
                       Write ''/tmp/render.exr'' ''abcdef'']\<rparr>)"
    using requestDownloadRun_file [of "env0 (Some ''PEM'') (always (Inr (reading_all ?res)))" ?s0
        req_file0 "reading_all ?res"
        "''-1''" "- 1" "''1f8ac10f23c5b5bc1167bda84b833e5c057a77d2''" "''/tmp/render.exr''"] n
    by (simp add: env0_def always_def file_response_def reading_all_def req_file0_def
        download_loop_negative Let_def os_open_def f_write_def log_def init_def urlopens_def
        sha1_table_def)
  show ?thesis
    by (simp add: n strict all added_def) (simp add: init_def)
qed

text \<open>
  C10, amended. For a download to a file whose declared \<^verbatim>\<open>Content-Length\<close> \<open>n\<close> is not
  negative, one attempt writes at most \<open>n\<close> bytes to the destination, whatever the
  stream holds: every chunk written is at most \<open>min (1 MiB) (what is left of n)\<close>. When
  the checksum header is present, the destination afterwards is absent or holds at most
  \<open>n\<close> bytes.
\<close>

theorem download_never_writes_more_than_declared:
  assumes net: "network E (urlopens s) req (ctx s) = Inr res"
    and len: "hdrs res ''content-length'' = Some len" "py_int len = Some n"
    and nonneg: "0 \<le> n"
    and out: "out_func req = None" "out_path req = Some path"
  shows "int (length (written path (added s (snd (requestDownloadRun E req s))))) \<le> n
    \<and> capped (nat n) (chunk_sizes path (added s (snd (requestDownloadRun E req s))))
    \<and> (str_truthy (hdrs res ''x-checksum-sha1'') \<longrightarrow>
         (case files (snd (requestDownloadRun E req s)) path of
            None \<Rightarrow> True
          | Some content \<Rightarrow> int (length content) \<le> n))"
proof -
  let ?rd = "requestDownloadRun E req s"
  let ?s0 = "log (Urlopen (full_url req) 3 (ctx s)) s"
  show ?thesis
  proof (cases "str_truthy (hdrs res ''x-checksum-sha1'')")
    case False
    then have "?rd = (Inr (PyBool False), log (Print msg_no_headers []) ?s0)"
      using missing_headers [OF net] by simp
    then have "added s (snd ?rd) = [Urlopen (full_url req) 3 (ctx s), Print msg_no_headers []]"
      by (simp add: added_def)
    with False nonneg show ?thesis by simp
  next
    case True
    then obtain sha1 where sha: "hdrs res ''x-checksum-sha1'' = Some sha1" "sha1 \<noteq> []"
      by (auto simp: str_truthy_def split: option.splits)
    show ?thesis
    proof (cases "can_open E path")
      case False
      show ?thesis
      proof (cases "files s path")
        case None
        then have "?rd = (Inl (OtherExn ''FileNotFoundError''), ?s0)"
          using net len sha out False py_int_nonempty [OF len(2)]
          by (simp add: requestDownloadRun_def urlopen_def os_remove_def)
        then have "added s (snd ?rd) = [Urlopen (full_url req) 3 (ctx s)]"
          "files (snd ?rd) path = None"
          using None by (simp_all add: added_def)
        then show ?thesis using nonneg by simp
      next
        case (Some old)
        then have "?rd = (Inl (OtherExn ''OSError''),
            log (Remove path) (?s0\<lparr>files := (files ?s0)(path := None)\<rparr>))"
          using net len sha out False py_int_nonempty [OF len(2)]
          by (simp add: requestDownloadRun_def urlopen_def os_remove_def)
        then have "added s (snd ?rd) = [Urlopen (full_url req) 3 (ctx s), Remove path]"
          "files (snd ?rd) path = None"
          by (simp_all add: added_def)
        then show ?thesis using nonneg by simp
      qed
    next
      case opn: True
      let ?s1 = "os_open path ?s0"
      let ?dl = "download_loop path n (body res) [] ?s1"
      let ?got = "take (nat n) (pending (body res))"
      have f0: "files ?s1 path = Some []" by (simp add: os_open_def)
      from download_loop_general [of path n "body res" "[]" ?s1] f0 nonneg
      obtain es where es: "trace (snd (snd ?dl)) = trace ?s1 @ es"
        "written path es = ?got" "capped (nat n) (chunk_sizes path es)"
        "fst ?dl = None" "fst (snd ?dl) = ?got" "files (snd (snd ?dl)) path = Some ?got"
        by (auto simp: received_def)
      have le: "int (length ?got) \<le> n" using nonneg by simp
      note rd = requestDownloadRun_file [OF net len sha out opn]
      show ?thesis
      proof (cases "sha1 \<noteq> sha1_hexdigest E ?got")
        case True
        with rd es(4,5) have st: "snd ?rd =
            log (Remove path) ((snd (snd ?dl))\<lparr>files := (files (snd (snd ?dl)))(path := None)\<rparr>)"
          by (simp add: Let_def)
        then have "trace (snd ?rd) =
            trace s @ (Urlopen (full_url req) 3 (ctx s) # Open path # es @ [Remove path])"
          using es(1) by (simp add: os_open_def)
        then have "added s (snd ?rd) = Urlopen (full_url req) 3 (ctx s) # Open path # es @ [Remove path]"
          by (rule added_append)
        moreover have "files (snd ?rd) path = None" using st by simp
        ultimately show ?thesis using es(2,3) le by simp
      next
        case False
        with rd es(4,5) have st: "snd ?rd = snd (snd ?dl)"
          by (simp add: Let_def)
        then have "trace (snd ?rd) = trace s @ (Urlopen (full_url req) 3 (ctx s) # Open path # es)"
          using es(1) by (simp add: os_open_def)
        then have "added s (snd ?rd) = Urlopen (full_url req) 3 (ctx s) # Open path # es"
          by (rule added_append)
        moreover have "files (snd ?rd) path = Some ?got" using st es(6) by simp
        ultimately show ?thesis using es(2,3) le by simp
      qed
    qed
  qed
qed

theorem download_never_writes_more_than_declared_witness:
  "int (length (written ''/tmp/render.exr'' (added (init Map.empty)
      (snd (requestDownloadRun (env0 (Some ''PEM'')
              (always (Inr (file_response ''3'' ''a9993e364706816aba3e25717850c26c9cd0d89d'' ''abcdef'' []))))
            req_file0 (init Map.empty)))))) \<le> 3
   \<and> capped 3 (chunk_sizes ''/tmp/render.exr'' (added (init Map.empty)
      (snd (requestDownloadRun (env0 (Some ''PEM'')
              (always (Inr (file_response ''3'' ''a9993e364706816aba3e25717850c26c9cd0d89d'' ''abcdef'' []))))
            req_file0 (init Map.empty)))))"
  using download_never_writes_more_than_declared [of
      "env0 (Some ''PEM'')
         (always (Inr (file_response ''3'' ''a9993e364706816aba3e25717850c26c9cd0d89d'' ''abcdef'' [])))"
      "init Map.empty" req_file0
      "file_response ''3'' ''a9993e364706816aba3e25717850c26c9cd0d89d'' ''abcdef'' []"
      "''3''" 3 "''/tmp/render.exr''"]
  by (simp add: env0_def always_def file_response_def req_file0_def py_int_def strip_def
      is_space_def)

subsection \<open>Trust\<close>

text \<open>
  When \<^verbatim>\<open>_getCA\<close> fails, \<^verbatim>\<open>_request\<close> returns \<^verbatim>\<open>None\<close> and no operation reaches
  \<^verbatim>\<open>urlopen\<close>; \<^verbatim>\<open>get\<close>, \<^verbatim>\<open>delete\<close> and \<^verbatim>\<open>download\<close> return \<^verbatim>\<open>None\<close>, \<^verbatim>\<open>put\<close> raises.
\<close>

lemma no_ca_outcomes:
  assumes "\<not> fst (getCA E c s)"
  shows "get E c path s = (Inr PyNone, snd (getCA E c s))"
    and "delete E c path s = (Inr PyNone, snd (getCA E c s))"
    and "download E c path out s = (Inr PyNone, snd (getCA E c s))"
    and "put E c path strm sz checksum s = (Inl (OtherExn ''AttributeError''), snd (getCA E c s))"
  using assms
  by (cases "getCA E c s"; simp add: get_def delete_def download_def put_def request_def
        split: option.splits)+

text \<open>
  C4. If the CA bundle cannot be fetched, every operation should return \<^verbatim>\<open>None\<close> without
  any HTTP request. Evaluated on an empty bucket: \<^verbatim>\<open>put\<close> attempts no request but raises
  \<^verbatim>\<open>AttributeError\<close> (it calls \<^verbatim>\<open>add_header\<close> on the \<^verbatim>\<open>None\<close> that \<^verbatim>\<open>_request\<close>
  returned), where \<^verbatim>\<open>get\<close> on the same engine returns \<^verbatim>\<open>None\<close>.
\<close>

theorem put_without_ca_raises:
  "put (env0 None (always (Inr (json_response body_accepted)))) cfg0 ''task/t1/config''
       \<lparr>pending = ''{}'', caps = [], negative_reads_all = False\<rparr> 2 None (init Map.empty)
   = (Inl (OtherExn ''AttributeError''),
      \<lparr>ca = None, ctx = \<lparr>check_hostname = False, cadata = []\<rparr>, files = Map.empty,
       trace = [Print ''DEBUG: Trying to get CA certificate from the bucket'' [],
                Fetch ''blendnet-bucket'' ''ca.crt'']\<rparr>)
   \<and> get (env0 None (always (Inr (json_response body_accepted)))) cfg0 ''task/t1'' (init Map.empty)
   = (Inr PyNone,
      \<lparr>ca = None, ctx = \<lparr>check_hostname = False, cadata = []\<rparr>, files = Map.empty,
       trace = [Print ''DEBUG: Trying to get CA certificate from the bucket'' [],
                Fetch ''blendnet-bucket'' ''ca.crt'']\<rparr>)"
  by (simp add: put_def get_def request_def getCA_def bytes_truthy_def init_def cfg0_def env0_def
      print_plain_def log_def Let_def)

text \<open>
  C7. On an envelope with \<^verbatim>\<open>success\<close> false the engine should log the envelope's message
  and return \<^verbatim>\<open>None\<close> without a retry. Evaluated on such an envelope: the message
  format has two conversions and one argument, so the \<^verbatim>\<open>print\<close> raises \<^verbatim>\<open>TypeError\<close>;
  the attempt raises instead of returning, the message is never printed, and
  \<^verbatim>\<open>_requestExecute\<close> prints the message of an unexpected exception and returns \<^verbatim>\<open>None\<close>
  after that one attempt.
\<close>

theorem rejected_envelope_message_not_logged:
  "requestExecuteRun (env0 (Some ''PEM'') (always (Inr (json_response body_rejected))))
       req_get0 (init Map.empty)
   = (Inl (OtherExn ''TypeError''),
      log (Urlopen (full_url req_get0) 10 (ctx (init Map.empty))) (init Map.empty))
   \<and> requestExecute req_get0
       (requestExecuteRun (env0 (Some ''PEM'') (always (Inr (json_response body_rejected)))))
       (init Map.empty)
   = (Inr PyNone,
      (init Map.empty)\<lparr>trace :=
         [Urlopen (full_url req_get0) 10 (ctx (init Map.empty)),
          Print msg_exception [AStr (full_url req_get0), AClass ''TypeError'']]\<rparr>)"
  by (simp add: requestExecute_def requestExecuteRun_def urlopen_def env0_def always_def
      json_response_def json_table_def body_rejected_def body_accepted_def print_format_def
      on_exception_def req_get0_def init_def log_def urlopens_def)

text \<open>
  C3. After a certificate-verification failure the trust should be fetched and installed
  again before the retried attempt. Evaluated on an engine holding an outdated CA while
  the bucket holds the current one: each failure resets the context once, but
  \<^verbatim>\<open>_requestExecute\<close> never calls \<^verbatim>\<open>_getCA\<close>, so the second and third attempts are sent
  with a context that has no CA loaded, nothing is fetched, and the call returns \<^verbatim>\<open>None\<close>.
  Only the next call fetches the CA, and succeeds.
\<close>

theorem certificate_failure_retries_without_ca:
  "fst (get (env0 (Some ''NEWPEM'') (manager_with_ca ''NEWPEM'' (json_response body_accepted)))
          cfg0 ''status'' stale) = Inr PyNone
   \<and> filter is_urlopen (trace (snd
        (get (env0 (Some ''NEWPEM'') (manager_with_ca ''NEWPEM'' (json_response body_accepted)))
          cfg0 ''status'' stale)))
      = [Urlopen ''https://10.0.0.2:8443/api/v1/status'' 10
           \<lparr>check_hostname = False, cadata = [''OLDPEM'']\<rparr>,
         Urlopen ''https://10.0.0.2:8443/api/v1/status'' 10
           \<lparr>check_hostname = False, cadata = []\<rparr>,
         Urlopen ''https://10.0.0.2:8443/api/v1/status'' 10
           \<lparr>check_hostname = False, cadata = []\<rparr>]
   \<and> fetches (snd
        (get (env0 (Some ''NEWPEM'') (manager_with_ca ''NEWPEM'' (json_response body_accepted)))
          cfg0 ''status'' stale)) = 0
   \<and> resets (snd
        (get (env0 (Some ''NEWPEM'') (manager_with_ca ''NEWPEM'' (json_response body_accepted)))
          cfg0 ''status'' stale)) = 3
   \<and> fst (get (env0 (Some ''NEWPEM'') (manager_with_ca ''NEWPEM'' (json_response body_accepted)))
          cfg0 ''status''
          (snd (get (env0 (Some ''NEWPEM'') (manager_with_ca ''NEWPEM'' (json_response body_accepted)))
                  cfg0 ''status'' stale))) = Inr (PyStr ''done'')"
  by (simp add: get_def request_def getCA_def bytes_truthy_def stale_def cfg0_def env0_def
      manager_with_ca_def json_response_def json_table_def body_rejected_def body_accepted_def
      requestExecute_def requestExecuteRun_def urlopen_def print_format_def print_plain_def
      on_exception_def initSSL_def log_def urlopens_def fetches_def resets_def Let_def
      str_nat.simps)

end
